theory Spec2Isabelle
  imports Complex_Main
begin

unbundle bit_operations_syntax

section \<open>The deep-sleep driver (deepsleep/deepsleep.py)\<close>

text \<open>
  Python integers are modelled as \<open>int\<close>, Python floats as exact \<open>real\<close> numbers
  (rounding error of the IEEE arithmetic is not modelled), strings as \<open>string\<close>.
  An exception is a value of type \<open>error\<close>; every stateful method returns its
  result (or the exception) together with the state it leaves behind, so that a
  \<^verbatim>\<open>try/except\<close> continues from the state at the point of the raise.
\<close>

subsection \<open>Module and class constants\<close>

definition PIN_MASK :: int where
  "PIN_MASK = 10"  \<comment> \<open>\<^verbatim>\<open>0b1010\<close>\<close>

definition COMM_PIN :: string where
  "COMM_PIN = ''P10''"

definition PIN_WAKE :: int where
  "PIN_WAKE = 0"

definition TIMER_WAKE :: int where
  "TIMER_WAKE = push_bit 4 1"

definition POWER_ON_WAKE :: int where
  "POWER_ON_WAKE = push_bit 5 1"

definition WPUA_ADDR :: int where
  "WPUA_ADDR = 9"  \<comment> \<open>\<^verbatim>\<open>0x09\<close>\<close>

definition OPTION_REG_ADDR :: int where
  "OPTION_REG_ADDR = 14"  \<comment> \<open>\<^verbatim>\<open>0x0E\<close>\<close>

definition IOCAP_ADDR :: int where
  "IOCAP_ADDR = 26"  \<comment> \<open>\<^verbatim>\<open>0x1A\<close>\<close>

definition IOCAN_ADDR :: int where
  "IOCAN_ADDR = 27"  \<comment> \<open>\<^verbatim>\<open>0x1B\<close>\<close>

definition WAKE_STATUS_ADDR :: int where
  "WAKE_STATUS_ADDR = 64"  \<comment> \<open>\<^verbatim>\<open>0x40\<close>\<close>



definition CTRL_0_ADDR :: int where
  "CTRL_0_ADDR = 69"  \<comment> \<open>\<^verbatim>\<open>0x45\<close>\<close>

definition EXP_RTC_PERIOD :: int where
  "EXP_RTC_PERIOD = 7000"

subsection \<open>Exceptions, platform calls and the driver's state\<close>

datatype error =
    ValueError string  \<comment> \<open>carries the message\<close>
  | IndexError
  | TypeError
  | ZeroDivisionError

text \<open>
  The calls the driver makes on the platform (\<^verbatim>\<open>machine.UART\<close>,
  \<^verbatim>\<open>pycom.pulses_get\<close>, \<^verbatim>\<open>gc.collect\<close>), in the order made. A read records
  the length it asked for: \<open>None\<close> is \<^verbatim>\<open>uart.read()\<close> with no argument.
\<close>

datatype hw_call =
    UartInit
  | UartDeinit
  | UartSendBreak int
  | UartWrite "int list"
  | UartRead "int option"
  | PulsesGet string int
  | GcCollect

text \<open>
  \<open>clk_cal_factor\<close> and \<open>pulses\<close> are the attributes of the object. \<open>trace\<close>
  is the list of platform calls made so far. \<open>uart_rx\<close> and \<open>pulse_rx\<close> are
  the answers of the platform, one per call still to come: what each
  \<^verbatim>\<open>uart.read\<close> returns (\<open>None\<close> when nothing was received) and what each
  \<^verbatim>\<open>pulses_get\<close> returns (pairs of level and duration).
\<close>

record deepsleep =
  clk_cal_factor :: real
  pulses :: "(int \<times> int) list"
  trace :: "hw_call list"
  uart_rx :: "int list option list"
  pulse_rx :: "(int \<times> int) list list"

type_synonym 'a exc = "deepsleep \<Rightarrow> (error + 'a) \<times> deepsleep"

definition ret :: "'a \<Rightarrow> 'a exc" where
  "ret x st = (Inr x, st)"

definition raise :: "error \<Rightarrow> 'a exc" where
  "raise e st = (Inl e, st)"

definition seq :: "'a exc \<Rightarrow> ('a \<Rightarrow> 'b exc) \<Rightarrow> 'b exc" where
  "seq m f st = (case m st of (Inl e, st') \<Rightarrow> (Inl e, st') | (Inr x, st') \<Rightarrow> f x st')"

text \<open>\<^verbatim>\<open>try: m  except: pass\<close>: whatever was raised is dropped, the state is kept.\<close>

definition try_pass :: "'a exc \<Rightarrow> unit exc" where
  "try_pass m st = (case m st of (Inl e, st') \<Rightarrow> (Inr (), st') | (Inr x, st') \<Rightarrow> (Inr (), st'))"

definition call :: "hw_call \<Rightarrow> unit exc" where
  "call c st = (Inr (), st\<lparr>trace := trace st @ [c]\<rparr>)"

definition uart_read :: "int option \<Rightarrow> int list option exc" where
  "uart_read n st =
     (Inr (case uart_rx st of [] \<Rightarrow> None | r # rs \<Rightarrow> r),
      st\<lparr>trace := trace st @ [UartRead n], uart_rx := tl (uart_rx st)\<rparr>)"

definition pulses_get :: "string \<Rightarrow> int \<Rightarrow> (int \<times> int) list exc" where
  "pulses_get pin timeout st =
     (Inr (case pulse_rx st of [] \<Rightarrow> [] | ps # rest \<Rightarrow> ps),
      st\<lparr>trace := trace st @ [PulsesGet pin timeout], pulse_rx := tl (pulse_rx st)\<rparr>)"


subsection \<open>Transport\<close>

text \<open>\<^verbatim>\<open>bytes(data)\<close> raises ValueError unless every element is in \<open>range(256)\<close>.\<close>

definition send :: "int list \<Rightarrow> unit exc" where
  "send data =
     (if list_all (\<lambda>b. 0 \<le> b \<and> b < 256) data then call (UartWrite data)
      else raise (ValueError ''bytes value out of range''))"

definition start :: "unit exc" where
  "start = seq (call (UartSendBreak 20)) (\<lambda>_. send [85])"

definition magic :: "int \<Rightarrow> int \<Rightarrow> int \<Rightarrow> int \<Rightarrow> int option \<Rightarrow> int list option exc" where
  "magic address and_val or_val xor_val expected =
     seq start (\<lambda>_.
     seq (send [address, and_val AND 255, or_val AND 255, xor_val AND 255]) (\<lambda>_.
       (case expected of
          None \<Rightarrow> uart_read None
        | Some n \<Rightarrow> if n > 0 then uart_read (Some n) else ret None)))"

subsection \<open>Pin masks\<close>

definition add_to_pin_mask :: "int \<Rightarrow> string \<Rightarrow> error + int" where
  "add_to_pin_mask msk pin =
     (if pin = ''P10'' \<or> pin = ''G17'' then Inr (msk OR 1)
      else if pin = ''P17'' \<or> pin = ''G31'' then Inr (msk OR 2)
      else if pin = ''P18'' \<or> pin = ''G30'' then Inr (msk OR 8)
      else Inl (ValueError (''Invalid Pin specified: '' @ pin)))"

text \<open>The argument of the pin operations: one string, or a collection of strings.\<close>

datatype pins_arg = PinStr string | PinSeq "string list"

fun pin_loop :: "int \<Rightarrow> string list \<Rightarrow> error + int" where
  "pin_loop msk [] = Inr msk"
| "pin_loop msk (pin # rest) =
     (case add_to_pin_mask msk pin of Inl e \<Rightarrow> Inl e | Inr msk' \<Rightarrow> pin_loop msk' rest)"

definition create_pin_mask :: "pins_arg \<Rightarrow> error + int" where
  "create_pin_mask pins =
     (case (case pins of PinStr s \<Rightarrow> add_to_pin_mask 0 s | PinSeq ps \<Rightarrow> pin_loop 0 ps) of
        Inl e \<Rightarrow> Inl e
      | Inr msk \<Rightarrow> Inr (msk AND PIN_MASK))"

text \<open>
  The identifiers \<^verbatim>\<open>_add_to_pin_mask\<close> accepts, and the mask the specification
  describes for a set of them before the final \<^verbatim>\<open>& PIN_MASK\<close>: the OR of bit 0 for
  P10/G17, bit 1 for P17/G31 and bit 3 for P18/G30. The code is compared with it below.
\<close>

definition valid_pins :: "string set" where
  "valid_pins = {''P10'', ''G17'', ''P17'', ''G31'', ''P18'', ''G30''}"

definition spec_pin_bits :: "string set \<Rightarrow> int" where
  "spec_pin_bits S =
     (if ''P10'' \<in> S \<or> ''G17'' \<in> S then 1 else 0) OR
     (if ''P17'' \<in> S \<or> ''G31'' \<in> S then 2 else 0) OR
     (if ''P18'' \<in> S \<or> ''G30'' \<in> S then 8 else 0)"

subsection \<open>Register operations\<close>

definition poke :: "int \<Rightarrow> int \<Rightarrow> unit exc" where
  "poke address val = seq (magic address 0 val 0 None) (\<lambda>_. ret ())"

text \<open>
  \<^verbatim>\<open>self._magic(address, 0xFF, 0, 0)[6]\<close>: subscripting \<open>None\<close> is a TypeError, an index
  past the end an IndexError.
\<close>

definition peek :: "int \<Rightarrow> int exc" where
  "peek address =
     seq (magic address 255 0 0 None) (\<lambda>r.
       (case r of
          None \<Rightarrow> raise TypeError
        | Some bs \<Rightarrow> if 6 < length bs then ret (bs ! 6) else raise IndexError))"

definition setbits :: "int \<Rightarrow> int \<Rightarrow> unit exc" where
  "setbits address msk = seq (magic address 255 msk 0 None) (\<lambda>_. ret ())"

definition clearbits :: "int \<Rightarrow> int \<Rightarrow> unit exc" where
  "clearbits address msk = seq (magic address (NOT msk) 0 0 None) (\<lambda>_. ret ())"

definition togglebits :: "int \<Rightarrow> int \<Rightarrow> unit exc" where
  "togglebits address msk = seq (magic address 255 0 msk None) (\<lambda>_. ret ())"

text \<open>
  An object with the attributes \<^verbatim>\<open>__init__\<close> sets and no platform call made yet, in
  front of a platform that will answer \<open>rx\<close> to the reads and \<open>prx\<close> to the pulse
  captures; \<^verbatim>\<open>__init__\<close> itself follows.
\<close>

definition fresh :: "int list option list \<Rightarrow> (int \<times> int) list list \<Rightarrow> deepsleep" where
  "fresh rx prx = \<lparr>clk_cal_factor = 1, pulses = [], trace = [], uart_rx = rx, pulse_rx = prx\<rparr>"

definition init :: "int list option list \<Rightarrow> (int \<times> int) list list \<Rightarrow> (error + unit) \<times> deepsleep" where
  "init rx prx =
     seq (call UartInit) (\<lambda>_.
     seq (uart_read None) (\<lambda>_.
     clearbits OPTION_REG_ADDR (push_bit 7 1))) (fresh rx prx)"

subsection \<open>Calibration\<close>

text \<open>The body of the \<^verbatim>\<open>try\<close> in \<^verbatim>\<open>calibrate\<close>; \<^verbatim>\<open>[4]\<close> and \<^verbatim>\<open>[1]\<close> raise on a short list.\<close>

definition calibrate_measure :: "unit exc" where
  "calibrate_measure st =
     (if 4 < length (pulses st)
      then (Inr (), st\<lparr>clk_cal_factor :=
              real_of_int (snd (pulses st ! 4) - snd (pulses st ! 1)) / real_of_int EXP_RTC_PERIOD\<rparr>)
      else (Inl IndexError, st))"

definition calibrate_clamp :: "unit exc" where
  "calibrate_clamp st =
     (if clk_cal_factor st > 1.25 \<or> clk_cal_factor st < 0.75
      then (Inr (), st\<lparr>clk_cal_factor := 1\<rparr>)
      else (Inr (), st))"

definition calibrate :: "unit exc" where
  "calibrate =
     seq (magic CTRL_0_ADDR 255 (push_bit 2 1) 0 (Some 0)) (\<lambda>_.
     seq (call UartDeinit) (\<lambda>_.
     seq (pulses_get COMM_PIN 50) (\<lambda>ps.
     seq (\<lambda>st. (Inr (), st\<lparr>pulses := ps\<rparr>)) (\<lambda>_.
     seq (call UartInit) (\<lambda>_.
     seq (try_pass calibrate_measure) (\<lambda>_.
     calibrate_clamp))))))"

subsection \<open>Pin configuration\<close>

definition enable_auto_poweroff :: "unit exc" where
  "enable_auto_poweroff = setbits CTRL_0_ADDR (push_bit 1 1)"

definition with_pin_mask :: "pins_arg \<Rightarrow> (int \<Rightarrow> unit exc) \<Rightarrow> unit exc" where
  "with_pin_mask pins f =
     (case create_pin_mask pins of Inl e \<Rightarrow> raise e | Inr msk \<Rightarrow> f msk)"

definition enable_pullups :: "pins_arg \<Rightarrow> unit exc" where
  "enable_pullups pins = with_pin_mask pins (setbits WPUA_ADDR)"

definition disable_pullups :: "pins_arg \<Rightarrow> unit exc" where
  "disable_pullups pins = with_pin_mask pins (clearbits WPUA_ADDR)"

definition enable_wake_on_raise :: "pins_arg \<Rightarrow> unit exc" where
  "enable_wake_on_raise pins = with_pin_mask pins (setbits IOCAP_ADDR)"

definition disable_wake_on_raise :: "pins_arg \<Rightarrow> unit exc" where
  "disable_wake_on_raise pins = with_pin_mask pins (clearbits IOCAP_ADDR)"

definition enable_wake_on_fall :: "pins_arg \<Rightarrow> unit exc" where
  "enable_wake_on_fall pins = with_pin_mask pins (setbits IOCAN_ADDR)"

definition disable_wake_on_fall :: "pins_arg \<Rightarrow> unit exc" where
  "disable_wake_on_fall pins = with_pin_mask pins (clearbits IOCAN_ADDR)"

subsection \<open>Wake status, voltage limit, sleep\<close>

definition get_wake_status :: "(string \<rightharpoonup> int) exc" where
  "get_wake_status =
     seq (peek WAKE_STATUS_ADDR) (\<lambda>wake_r.
       ret [''wake'' \<mapsto> wake_r AND (TIMER_WAKE OR POWER_ON_WAKE),
            ''P10'' \<mapsto> wake_r AND 1,
            ''P17'' \<mapsto> drop_bit 1 (wake_r AND 2),
            ''P18'' \<mapsto> drop_bit 3 (wake_r AND 8)])"






definition hw_reset :: "unit exc" where
  "hw_reset = setbits CTRL_0_ADDR (push_bit 4 1)"

section \<open>Properties\<close>

subsection \<open>Transport and register operations\<close>

lemma and_255_bounds: "0 \<le> (x::int) AND 255" "(x::int) AND 255 < 256"
proof -
  show "0 \<le> x AND 255" by simp
  have "x AND 255 \<le> 255" by (rule AND_upper2') simp_all
  then show "x AND 255 < 256" by simp
qed

lemma and_255_byte: "0 \<le> v \<Longrightarrow> v < 256 \<Longrightarrow> v AND 255 = (v::int)"
proof -
  assume a: "0 \<le> v" "v < 256"
  have "v AND 255 = take_bit 8 v" by (simp add: take_bit_eq_mask mask_eq_exp_minus_1)
  also have "\<dots> = v" using a by (simp add: take_bit_int_eq_self)
  finally show ?thesis .
qed

lemma magic_None:
  assumes "0 \<le> a" "a < 256"
  shows "magic a x y z None st =
    (Inr (case uart_rx st of [] \<Rightarrow> None | r # rs \<Rightarrow> r),
     st\<lparr>trace := trace st @ [UartSendBreak 20, UartWrite [85],
            UartWrite [a, x AND 255, y AND 255, z AND 255], UartRead None],
        uart_rx := tl (uart_rx st)\<rparr>)"
  using assms and_255_bounds
  by (simp add: magic_def start_def seq_def call_def send_def uart_read_def)

lemma magic_zero:
  assumes "0 \<le> a" "a < 256"
  shows "magic a x y z (Some 0) st =
    (Inr None,
     st\<lparr>trace := trace st @ [UartSendBreak 20, UartWrite [85],
            UartWrite [a, x AND 255, y AND 255, z AND 255]]\<rparr>)"
  using assms and_255_bounds
  by (simp add: magic_def start_def seq_def call_def send_def ret_def)

lemma poke_frame:
  assumes "0 \<le> a" "a < 256"
  shows "poke a v st =
    (Inr (), st\<lparr>trace := trace st @ [UartSendBreak 20, UartWrite [85],
            UartWrite [a, 0, v AND 255, 0], UartRead None],
        uart_rx := tl (uart_rx st)\<rparr>)"
  using assms by (simp add: poke_def seq_def ret_def magic_None)

lemma setbits_frame:
  assumes "0 \<le> a" "a < 256"
  shows "setbits a v st =
    (Inr (), st\<lparr>trace := trace st @ [UartSendBreak 20, UartWrite [85],
            UartWrite [a, 255, v AND 255, 0], UartRead None],
        uart_rx := tl (uart_rx st)\<rparr>)"
  using assms by (simp add: setbits_def seq_def ret_def magic_None)

lemma clearbits_frame:
  assumes "0 \<le> a" "a < 256"
  shows "clearbits a v st =
    (Inr (), st\<lparr>trace := trace st @ [UartSendBreak 20, UartWrite [85],
            UartWrite [a, NOT v AND 255, 0, 0], UartRead None],
        uart_rx := tl (uart_rx st)\<rparr>)"
  using assms by (simp add: clearbits_def seq_def ret_def magic_None)

lemma togglebits_frame:
  assumes "0 \<le> a" "a < 256"
  shows "togglebits a v st =
    (Inr (), st\<lparr>trace := trace st @ [UartSendBreak 20, UartWrite [85],
            UartWrite [a, 255, 0, v AND 255], UartRead None],
        uart_rx := tl (uart_rx st)\<rparr>)"
  using assms by (simp add: togglebits_def seq_def ret_def magic_None)

lemma peek_frame:
  assumes "0 \<le> a" "a < 256"
  shows "peek a st =
    ((case uart_rx st of
        [] \<Rightarrow> Inl TypeError
      | None # rest \<Rightarrow> Inl TypeError
      | Some bs # rest \<Rightarrow> if 6 < length bs then Inr (bs ! 6) else Inl IndexError),
     st\<lparr>trace := trace st @ [UartSendBreak 20, UartWrite [85],
            UartWrite [a, 255, 0, 0], UartRead None],
        uart_rx := tl (uart_rx st)\<rparr>)"
  using assms
  by (simp add: peek_def seq_def ret_def raise_def magic_None split: list.splits option.splits)

text \<open>
  Claim C5. For every 8-bit address and 8-bit operand, \<open>poke\<close> sends the frame
  \<open>[addr, 0x00, value, 0x00]\<close>, \<open>setbits\<close> sends \<open>[addr, 0xFF, mask, 0x00]\<close>,
  \<open>clearbits\<close> sends \<open>[addr, ~mask & 0xFF, 0x00, 0x00]\<close> and \<open>togglebits\<close> sends
  \<open>[addr, 0xFF, 0x00, mask]\<close>. Each frame follows a break of 20 and the byte \<open>0x55\<close>,
  is followed by one read without a length, and nothing else is sent.
\<close>

theorem register_ops_frames:
  assumes "0 \<le> addr" "addr < 256" "0 \<le> v" "v < 256"
  shows "poke addr v st =
           (Inr (), st\<lparr>trace := trace st @ [UartSendBreak 20, UartWrite [85],
                      UartWrite [addr, 0, v, 0], UartRead None],
                    uart_rx := tl (uart_rx st)\<rparr>)
       \<and> setbits addr v st =
           (Inr (), st\<lparr>trace := trace st @ [UartSendBreak 20, UartWrite [85],
                      UartWrite [addr, 255, v, 0], UartRead None],
                    uart_rx := tl (uart_rx st)\<rparr>)
       \<and> clearbits addr v st =
           (Inr (), st\<lparr>trace := trace st @ [UartSendBreak 20, UartWrite [85],
                      UartWrite [addr, NOT v AND 255, 0, 0], UartRead None],
                    uart_rx := tl (uart_rx st)\<rparr>)
       \<and> togglebits addr v st =
           (Inr (), st\<lparr>trace := trace st @ [UartSendBreak 20, UartWrite [85],
                      UartWrite [addr, 255, 0, v], UartRead None],
                    uart_rx := tl (uart_rx st)\<rparr>)"
  using assms
  by (simp add: poke_frame setbits_frame clearbits_frame togglebits_frame and_255_byte)

theorem register_ops_frames_witness:
  "poke 66 200 (fresh [] []) =
     (Inr (), \<lparr>clk_cal_factor = 1, pulses = [],
        trace = [UartSendBreak 20, UartWrite [85], UartWrite [66, 0, 200, 0], UartRead None],
        uart_rx = [], pulse_rx = []\<rparr>)
   \<and> setbits 66 200 (fresh [] []) =
     (Inr (), \<lparr>clk_cal_factor = 1, pulses = [],
        trace = [UartSendBreak 20, UartWrite [85], UartWrite [66, 255, 200, 0], UartRead None],
        uart_rx = [], pulse_rx = []\<rparr>)
   \<and> clearbits 66 200 (fresh [] []) =
     (Inr (), \<lparr>clk_cal_factor = 1, pulses = [],
        trace = [UartSendBreak 20, UartWrite [85], UartWrite [66, 55, 0, 0], UartRead None],
        uart_rx = [], pulse_rx = []\<rparr>)
   \<and> togglebits 66 200 (fresh [] []) =
     (Inr (), \<lparr>clk_cal_factor = 1, pulses = [],
        trace = [UartSendBreak 20, UartWrite [85], UartWrite [66, 255, 0, 200], UartRead None],
        uart_rx = [], pulse_rx = []\<rparr>)"
  using register_ops_frames [of 66 200 "fresh [] []"] by (simp add: fresh_def)

text \<open>
  Claim C6, as the code has it. For every 8-bit address, \<open>peek\<close> sends the frame
  \<open>[addr, 0xFF, 0x00, 0x00]\<close> and then reads without giving a length: it takes
  whatever the platform returns for \<^verbatim>\<open>uart.read()\<close>. It returns the byte at index 6
  of that reply when the reply has at least 7 bytes; a reply of \<open>None\<close> ends in a
  TypeError and a shorter reply in an IndexError.
\<close>

theorem peek_unbounded_read_index_6:
  assumes "0 \<le> addr" "addr < 256"
  shows "peek addr st =
    ((case uart_rx st of
        [] \<Rightarrow> Inl TypeError
      | None # rest \<Rightarrow> Inl TypeError
      | Some bs # rest \<Rightarrow> if 6 < length bs then Inr (bs ! 6) else Inl IndexError),
     st\<lparr>trace := trace st @ [UartSendBreak 20, UartWrite [85],
            UartWrite [addr, 255, 0, 0], UartRead None],
        uart_rx := tl (uart_rx st)\<rparr>)"
  using assms by (rule peek_frame)

theorem peek_unbounded_read_index_6_witness:
  "peek 64 (fresh [Some [10, 11, 12, 13, 14, 15, 16]] []) =
     (Inr 16, \<lparr>clk_cal_factor = 1, pulses = [],
        trace = [UartSendBreak 20, UartWrite [85], UartWrite [64, 255, 0, 0], UartRead None],
        uart_rx = [], pulse_rx = []\<rparr>)"
  using peek_unbounded_read_index_6 [of 64 "fresh [Some [10, 11, 12, 13, 14, 15, 16]] []"]
  by (simp add: fresh_def)

text \<open>
  Claim C6 as stated fails: no read of \<open>peek\<close> asks for 7 bytes. On a reply of nine
  bytes the only read is the one without a length, the whole reply is taken and its
  byte at index 6 is returned.
\<close>

theorem peek_fixed_length_counterexample:
  "trace (snd (peek 64 (fresh [Some [10, 11, 12, 13, 14, 15, 16, 17, 18]] []))) =
     [UartSendBreak 20, UartWrite [85], UartWrite [64, 255, 0, 0], UartRead None]
   \<and> UartRead (Some 7) \<notin> set (trace (snd (peek 64 (fresh [Some [10, 11, 12, 13, 14, 15, 16, 17, 18]] []))))
   \<and> fst (peek 64 (fresh [Some [10, 11, 12, 13, 14, 15, 16, 17, 18]] [])) = Inr 16
   \<and> uart_rx (snd (peek 64 (fresh [Some [10, 11, 12, 13, 14, 15, 16, 17, 18]] []))) = []"
  by (simp add: peek_frame fresh_def)

subsection \<open>Wake status\<close>

lemma and_bit_int: "(b::int) AND push_bit k 1 = push_bit k (of_bool (bit b k))"
  by (rule bit_eqI) (auto simp add: bit_simps)

lemma and_1_bit: "(b::int) AND 1 = of_bool (bit b 0)"
  using and_bit_int [of b 0] by simp

lemma and_2_bit: "drop_bit 1 ((b::int) AND 2) = of_bool (bit b 1)"
  using and_bit_int [of b 1] by simp

lemma and_8_bit: "drop_bit 3 ((b::int) AND 8) = of_bool (bit b 3)"
  using and_bit_int [of b 3] by simp

lemma and_48_bit:
  "(b::int) AND 48 = (if bit b 4 then 16 else 0) OR (if bit b 5 then 32 else 0)"
proof -
  have "(b AND 16) OR (b AND 32) = b AND (16 OR 32)"
    by (rule bit.conj_disj_distrib [symmetric])
  moreover have "(16::int) OR 32 = 48" by simp
  ultimately have "b AND 48 = (b AND 16) OR (b AND 32)" by simp
  then show ?thesis
    using and_bit_int [of b 4] and_bit_int [of b 5] by simp
qed

lemma get_wake_status_reply:
  assumes "uart_rx st = Some bs # rest" "6 < length bs"
  shows "get_wake_status st =
    (Inr [''wake'' \<mapsto> (bs ! 6) AND 48, ''P10'' \<mapsto> (bs ! 6) AND 1,
          ''P17'' \<mapsto> drop_bit 1 ((bs ! 6) AND 2), ''P18'' \<mapsto> drop_bit 3 ((bs ! 6) AND 8)],
     st\<lparr>trace := trace st @ [UartSendBreak 20, UartWrite [85],
            UartWrite [64, 255, 0, 0], UartRead None],
        uart_rx := rest\<rparr>)"
  using assms
  by (simp add: get_wake_status_def seq_def ret_def peek_frame WAKE_STATUS_ADDR_def
      TIMER_WAKE_def POWER_ON_WAKE_def)

text \<open>
  Claim C9. For every status byte \<open>b\<close> that \<open>peek\<close> reads from the wake-status
  register, the decoded \<open>wake\<close> field carries \<open>TIMER_WAKE\<close> exactly when bit 4 of
  \<open>b\<close> is set and \<open>POWER_ON_WAKE\<close> exactly when bit 5 is set, and the fields
  \<open>P10\<close>, \<open>P17\<close>, \<open>P18\<close> are bits 0, 1 and 3 of \<open>b\<close>. The byte \<open>0b00010001\<close>
  decodes to \<open>wake = TIMER_WAKE\<close>, \<open>P10 = 1\<close>, \<open>P17 = 0\<close>, \<open>P18 = 0\<close>.
\<close>

theorem wake_status_decoding:
  assumes "uart_rx st = Some bs # rest" "6 < length bs" "bs ! 6 = b"
  shows "fst (get_wake_status st) =
    Inr [''wake'' \<mapsto> (if bit b 4 then TIMER_WAKE else 0) OR (if bit b 5 then POWER_ON_WAKE else 0),
         ''P10'' \<mapsto> of_bool (bit b 0),
         ''P17'' \<mapsto> of_bool (bit b 1),
         ''P18'' \<mapsto> of_bool (bit b 3)]"
proof -
  have "fst (get_wake_status st) =
    Inr [''wake'' \<mapsto> b AND 48, ''P10'' \<mapsto> b AND 1,
          ''P17'' \<mapsto> drop_bit 1 (b AND 2), ''P18'' \<mapsto> drop_bit 3 (b AND 8)]"
    using assms by (simp add: get_wake_status_reply)
  then show ?thesis
    unfolding and_1_bit and_2_bit and_8_bit and_48_bit
    by (simp add: TIMER_WAKE_def POWER_ON_WAKE_def)
qed

theorem wake_status_decoding_witness:
  "fst (get_wake_status (fresh [Some [0, 0, 0, 0, 0, 0, 17]] [])) =
     Inr [''wake'' \<mapsto> TIMER_WAKE, ''P10'' \<mapsto> 1, ''P17'' \<mapsto> 0, ''P18'' \<mapsto> 0]
   \<and> TIMER_WAKE = 16"
  using wake_status_decoding [of "fresh [Some [0, 0, 0, 0, 0, 0, 17]] []" "[0, 0, 0, 0, 0, 0, 17]" "[]" 17]
  by (simp add: fresh_def TIMER_WAKE_def)

subsection \<open>Pin masks\<close>

lemma add_to_pin_mask_valid:
  assumes "pin \<in> valid_pins"
  shows "add_to_pin_mask m pin = Inr (m OR spec_pin_bits {pin})"
proof -
  consider "pin = ''P10''" | "pin = ''G17''" | "pin = ''P17''" | "pin = ''G31''"
    | "pin = ''P18''" | "pin = ''G30''"
    using assms unfolding valid_pins_def by blast
  then show ?thesis
    by cases (simp_all add: add_to_pin_mask_def spec_pin_bits_def)
qed

lemma add_to_pin_mask_invalid:
  "pin \<notin> valid_pins \<Longrightarrow>
     add_to_pin_mask m pin = Inl (ValueError (''Invalid Pin specified: '' @ pin))"
  by (simp add: valid_pins_def add_to_pin_mask_def)

lemma spec_pin_bits_insert:
  assumes "pin \<in> valid_pins"
  shows "spec_pin_bits (insert pin S) = spec_pin_bits {pin} OR spec_pin_bits S"
proof -
  consider "pin = ''P10''" | "pin = ''G17''" | "pin = ''P17''" | "pin = ''G31''"
    | "pin = ''P18''" | "pin = ''G30''"
    using assms unfolding valid_pins_def by blast
  then show ?thesis
  proof cases
    case 1 then show ?thesis by (simp add: spec_pin_bits_def)
  next
    case 2 then show ?thesis by (simp add: spec_pin_bits_def)
  next
    case 3 then show ?thesis by (simp add: spec_pin_bits_def)
  next
    case 4 then show ?thesis by (simp add: spec_pin_bits_def)
  next
    case 5 then show ?thesis by (simp add: spec_pin_bits_def)
  next
    case 6 then show ?thesis by (simp add: spec_pin_bits_def)
  qed
qed

lemma pin_loop_valid:
  "set ps \<subseteq> valid_pins \<Longrightarrow> pin_loop m ps = Inr (m OR spec_pin_bits (set ps))"
proof (induction ps arbitrary: m)
  case Nil
  show ?case by (simp add: spec_pin_bits_def)
next
  case (Cons p ps)
  then have p: "p \<in> valid_pins" and ps: "set ps \<subseteq> valid_pins" by simp_all
  have "pin_loop m (p # ps) = pin_loop (m OR spec_pin_bits {p}) ps"
    by (simp add: add_to_pin_mask_valid [OF p])
  also have "\<dots> = Inr ((m OR spec_pin_bits {p}) OR spec_pin_bits (set ps))"
    by (rule Cons.IH [OF ps])
  also have "(m OR spec_pin_bits {p}) OR spec_pin_bits (set ps) = m OR spec_pin_bits (insert p (set ps))"
    using spec_pin_bits_insert [OF p, of "set ps"] by (simp only: or.assoc)
  finally show ?case by simp
qed

lemma pin_loop_invalid:
  "pin \<in> set ps \<Longrightarrow> pin \<notin> valid_pins \<Longrightarrow>
     \<exists>bad. bad \<in> set ps \<and> bad \<notin> valid_pins \<and>
       pin_loop m ps = Inl (ValueError (''Invalid Pin specified: '' @ bad))"
proof (induction ps arbitrary: m)
  case Nil
  then show ?case by simp
next
  case (Cons p ps)
  show ?case
  proof (cases "p \<in> valid_pins")
    case False
    then show ?thesis by (auto simp add: add_to_pin_mask_invalid)
  next
    case True
    with Cons.prems have "pin \<in> set ps" by auto
    from Cons.IH [OF this Cons.prems(2)] True show ?thesis
      by (auto simp add: add_to_pin_mask_valid)
  qed
qed

lemma spec_pin_bits_and_mask:
  "spec_pin_bits S AND PIN_MASK =
     (if ''P17'' \<in> S \<or> ''G31'' \<in> S then 2 else 0) OR
     (if ''P18'' \<in> S \<or> ''G30'' \<in> S then 8 else 0)"
  by (simp add: spec_pin_bits_def PIN_MASK_def)


lemma with_pin_mask_error:
  "create_pin_mask pins = Inl e \<Longrightarrow> with_pin_mask pins f st = (Inl e, st)"
  by (simp add: with_pin_mask_def raise_def)

text \<open>
  Claim C1, as the code has it. For a single identifier or a collection of identifiers
  of the closed set, the mask is the OR of one bit per identifier (bit 0 for P10/G17,
  bit 1 for P17/G31, bit 3 for P18/G30) ANDed with \<open>PIN_MASK = 0b1010\<close>, which covers
  bits 1 and 3 only: the bit of P10/G17 is removed, and what is left is bit 1 for
  P17/G31 and bit 3 for P18/G30. The result depends only on the set of identifiers, not
  on their order or repetition, and a single identifier gives what the one-element
  collection gives.
\<close>

theorem create_pin_mask_value:
  assumes "set ps \<subseteq> valid_pins" "set qs = set ps"
  shows "create_pin_mask (PinSeq ps) = Inr (spec_pin_bits (set ps) AND PIN_MASK)
       \<and> spec_pin_bits (set ps) AND PIN_MASK =
           (if ''P17'' \<in> set ps \<or> ''G31'' \<in> set ps then 2 else 0) OR
           (if ''P18'' \<in> set ps \<or> ''G30'' \<in> set ps then 8 else 0)
       \<and> create_pin_mask (PinSeq qs) = create_pin_mask (PinSeq ps)
       \<and> create_pin_mask (PinStr p) = create_pin_mask (PinSeq [p])"
proof -
  have ps: "create_pin_mask (PinSeq ps) = Inr (spec_pin_bits (set ps) AND PIN_MASK)"
    using assms(1) by (simp add: create_pin_mask_def pin_loop_valid)
  have "set qs \<subseteq> valid_pins" using assms by simp
  then have "create_pin_mask (PinSeq qs) = Inr (spec_pin_bits (set qs) AND PIN_MASK)"
    by (simp add: create_pin_mask_def pin_loop_valid)
  then have qs: "create_pin_mask (PinSeq qs) = create_pin_mask (PinSeq ps)"
    using ps assms(2) by simp
  have single: "create_pin_mask (PinStr p) = create_pin_mask (PinSeq [p])"
    by (simp add: create_pin_mask_def split: sum.splits)
  show ?thesis
    using ps qs single spec_pin_bits_and_mask [of "set ps"] by simp
qed

theorem create_pin_mask_value_witness:
  "create_pin_mask (PinSeq [''P10'', ''P18'']) = Inr 8
   \<and> create_pin_mask (PinSeq [''P18'', ''P10'', ''P18'', ''P10'']) = Inr 8
   \<and> create_pin_mask (PinStr ''G31'') = create_pin_mask (PinSeq [''G31''])"
proof -
  have a: "set [''P10'', ''P18''] \<subseteq> valid_pins"
    by (simp add: valid_pins_def)
  have b: "set [''P18'', ''P10'', ''P18'', ''P10''] = set [''P10'', ''P18'']"
    by auto
  show ?thesis
    using create_pin_mask_value [OF a b, of "''G31''"]
    by (simp add: spec_pin_bits_def PIN_MASK_def)
qed

text \<open>
  Claim C1 as stated fails: \<open>PIN_MASK\<close> is not the mask of bits 0, 1 and 3, and the
  pins P10 and P18 together give bit 3 alone, not bit 0 with bit 3.
\<close>

theorem create_pin_mask_counterexample:
  "create_pin_mask (PinSeq [''P10'', ''P18'']) = Inr 8
   \<and> create_pin_mask (PinSeq [''P10'', ''P18'']) \<noteq> Inr (1 OR 8)
   \<and> create_pin_mask (PinStr ''P10'') = Inr 0
   \<and> PIN_MASK \<noteq> 1 OR 2 OR 8"
  by (simp add: create_pin_mask_def add_to_pin_mask_def PIN_MASK_def)

text \<open>
  Claim C7. An identifier outside the closed set makes \<^verbatim>\<open>_add_to_pin_mask\<close> raise
  ValueError, whatever the mask so far. Given alone or anywhere in a collection, it
  makes the translation raise ValueError for an identifier outside the set, and each of
  the six pin operations ends with that error before any platform call: no mask is
  produced, so the identifier never counts as 0.
\<close>

theorem invalid_pin_raises:
  assumes "pin \<notin> valid_pins" "pins = PinStr pin \<or> pins = PinSeq ps \<and> pin \<in> set ps"
  shows "add_to_pin_mask m pin = Inl (ValueError (''Invalid Pin specified: '' @ pin))
       \<and> (\<exists>bad. bad \<notin> valid_pins
            \<and> create_pin_mask pins = Inl (ValueError (''Invalid Pin specified: '' @ bad))
            \<and> enable_pullups pins st = (Inl (ValueError (''Invalid Pin specified: '' @ bad)), st)
            \<and> disable_pullups pins st = (Inl (ValueError (''Invalid Pin specified: '' @ bad)), st)
            \<and> enable_wake_on_raise pins st = (Inl (ValueError (''Invalid Pin specified: '' @ bad)), st)
            \<and> disable_wake_on_raise pins st = (Inl (ValueError (''Invalid Pin specified: '' @ bad)), st)
            \<and> enable_wake_on_fall pins st = (Inl (ValueError (''Invalid Pin specified: '' @ bad)), st)
            \<and> disable_wake_on_fall pins st = (Inl (ValueError (''Invalid Pin specified: '' @ bad)), st))"
proof -
  have "\<exists>bad. bad \<notin> valid_pins
      \<and> create_pin_mask pins = Inl (ValueError (''Invalid Pin specified: '' @ bad))"
    using assms(2)
  proof
    assume "pins = PinStr pin"
    then have "create_pin_mask pins = Inl (ValueError (''Invalid Pin specified: '' @ pin))"
      using assms(1) by (simp add: create_pin_mask_def add_to_pin_mask_invalid)
    with assms(1) show ?thesis by blast
  next
    assume a: "pins = PinSeq ps \<and> pin \<in> set ps"
    then obtain bad where "bad \<notin> valid_pins"
      "pin_loop 0 ps = Inl (ValueError (''Invalid Pin specified: '' @ bad))"
      using pin_loop_invalid [of pin ps 0] assms(1) by blast
    with a show ?thesis by (auto simp add: create_pin_mask_def)
  qed
  then obtain bad where bad: "bad \<notin> valid_pins"
    "create_pin_mask pins = Inl (ValueError (''Invalid Pin specified: '' @ bad))"
    by blast
  show ?thesis
    using bad assms(1)
    by (auto simp add: add_to_pin_mask_invalid with_pin_mask_error enable_pullups_def
        disable_pullups_def enable_wake_on_raise_def disable_wake_on_raise_def
        enable_wake_on_fall_def disable_wake_on_fall_def)
qed

theorem invalid_pin_raises_witness:
  "add_to_pin_mask 2 ''P11'' = Inl (ValueError ''Invalid Pin specified: P11'')
   \<and> create_pin_mask (PinSeq [''P17'', ''P11'', ''P18'']) = Inl (ValueError ''Invalid Pin specified: P11'')
   \<and> enable_wake_on_fall (PinSeq [''P17'', ''P11'', ''P18'']) (fresh [] []) =
       (Inl (ValueError ''Invalid Pin specified: P11''), fresh [] [])"
  using invalid_pin_raises [of "''P11''" "PinSeq [''P17'', ''P11'', ''P18'']" "[''P17'', ''P11'', ''P18'']" 2 "fresh [] []"]
  by (simp add: valid_pins_def create_pin_mask_def add_to_pin_mask_def enable_wake_on_fall_def
      with_pin_mask_def raise_def)

subsection \<open>Calibration\<close>

lemma calibrate_eq:
  "calibrate st =
     (let ps = (case pulse_rx st of [] \<Rightarrow> [] | p # rest \<Rightarrow> p);
          c = (if 4 < length ps
               then real_of_int (snd (ps ! 4) - snd (ps ! 1)) / real_of_int EXP_RTC_PERIOD
               else clk_cal_factor st)
      in (Inr (),
          st\<lparr>trace := trace st @ [UartSendBreak 20, UartWrite [85], UartWrite [69, 255, 4, 0],
                   UartDeinit, PulsesGet ''P10'' 50, UartInit],
             pulse_rx := tl (pulse_rx st),
             pulses := ps,
             clk_cal_factor := (if c > 1.25 \<or> c < 0.75 then 1 else c)\<rparr>))"
  by (simp add: calibrate_def seq_def magic_zero CTRL_0_ADDR_def call_def pulses_get_def
      COMM_PIN_def try_pass_def calibrate_measure_def calibrate_clamp_def Let_def)


lemma calibrate_uart_rx: "uart_rx (snd (calibrate st)) = uart_rx st"
  by (simp add: calibrate_eq Let_def)


text \<open>
  Claim C3. With \<open>ps\<close> the pulses captured, \<open>calibrate\<close> raises nothing and computes
  the factor as (field 1 of \<open>ps[4]\<close> minus field 1 of \<open>ps[1]\<close>) divided by
  \<open>EXP_RTC_PERIOD\<close>, which it then keeps or replaces by 1 by the range check. When the
  difference is exactly \<open>EXP_RTC_PERIOD\<close> the factor is exactly 1. When fewer than
  5 pulses were captured and the prior factor is within the accepted range, the factor
  is left as it was.
\<close>

theorem calibrate_factor:
  assumes "pulse_rx st = ps # rest"
  shows "fst (calibrate st) = Inr ()
       \<and> (4 < length ps \<longrightarrow>
            clk_cal_factor (snd (calibrate st)) =
              (let c = real_of_int (snd (ps ! 4) - snd (ps ! 1)) / real_of_int EXP_RTC_PERIOD
               in if c > 1.25 \<or> c < 0.75 then 1 else c))
       \<and> (4 < length ps \<and> snd (ps ! 4) - snd (ps ! 1) = EXP_RTC_PERIOD \<longrightarrow>
            clk_cal_factor (snd (calibrate st)) = 1)
       \<and> (length ps < 5 \<and> 0.75 \<le> clk_cal_factor st \<and> clk_cal_factor st \<le> 1.25 \<longrightarrow>
            clk_cal_factor (snd (calibrate st)) = clk_cal_factor st)"
  using assms by (auto simp add: calibrate_eq Let_def EXP_RTC_PERIOD_def)


theorem calibrate_factor_witness:
  "clk_cal_factor (snd (calibrate
      (fresh [] [[(1, 100), (0, 1000), (1, 1000), (0, 1000), (1, 8000)]]))) = 1
   \<and> clk_cal_factor (snd (calibrate
      (fresh [] [[(1, 100), (0, 1000), (1, 1000), (0, 1000), (1, 9400)]]))) = 1.2
   \<and> clk_cal_factor (snd (calibrate
      ((fresh [] [[(1, 100), (0, 1000)]])\<lparr>clk_cal_factor := 1.2\<rparr>))) = 1.2"
  using
    calibrate_factor [of "fresh [] [[(1, 100), (0, 1000), (1, 1000), (0, 1000), (1, 8000)]]"
      "[(1, 100), (0, 1000), (1, 1000), (0, 1000), (1, 8000)]" "[]"]
    calibrate_factor [of "fresh [] [[(1, 100), (0, 1000), (1, 1000), (0, 1000), (1, 9400)]]"
      "[(1, 100), (0, 1000), (1, 1000), (0, 1000), (1, 9400)]" "[]"]
    calibrate_factor [of "(fresh [] [[(1, 100), (0, 1000)]])\<lparr>clk_cal_factor := 1.2\<rparr>"
      "[(1, 100), (0, 1000)]" "[]"]
  by (simp add: fresh_def EXP_RTC_PERIOD_def)

text \<open>
  Claim C4, as the code has it. With \<open>c\<close> the candidate factor computed from the
  capture, a value below 0.75 or above 1.25 is replaced by 1, and a value of the closed
  interval from 0.75 to 1.25, both bounds included, is kept.
\<close>

theorem calibrate_clamp_closed_range:
  assumes "pulse_rx st = ps # rest" "4 < length ps"
    "c = real_of_int (snd (ps ! 4) - snd (ps ! 1)) / real_of_int EXP_RTC_PERIOD"
  shows "(c < 0.75 \<or> 1.25 < c \<longrightarrow> clk_cal_factor (snd (calibrate st)) = 1)
       \<and> (0.75 \<le> c \<and> c \<le> 1.25 \<longrightarrow> clk_cal_factor (snd (calibrate st)) = c)"
  using assms by (auto simp add: calibrate_eq Let_def)

theorem calibrate_clamp_closed_range_witness:
  "clk_cal_factor (snd (calibrate
      (fresh [] [[(1, 100), (0, 1000), (1, 1000), (0, 1000), (1, 15000)]]))) = 1
   \<and> clk_cal_factor (snd (calibrate
      (fresh [] [[(1, 100), (0, 1000), (1, 1000), (0, 1000), (1, 6000)]]))) = 1
   \<and> clk_cal_factor (snd (calibrate
      (fresh [] [[(1, 100), (0, 1000), (1, 1000), (0, 1000), (1, 8700)]]))) = 1.1
   \<and> clk_cal_factor (snd (calibrate
      (fresh [] [[(1, 100), (0, 1000), (1, 1000), (0, 1000), (1, 9750)]]))) = 1.25"
  using
    calibrate_clamp_closed_range [of "fresh [] [[(1, 100), (0, 1000), (1, 1000), (0, 1000), (1, 15000)]]"
      "[(1, 100), (0, 1000), (1, 1000), (0, 1000), (1, 15000)]" "[]" 2]
    calibrate_clamp_closed_range [of "fresh [] [[(1, 100), (0, 1000), (1, 1000), (0, 1000), (1, 6000)]]"
      "[(1, 100), (0, 1000), (1, 1000), (0, 1000), (1, 6000)]" "[]" "5 / 7"]
    calibrate_clamp_closed_range [of "fresh [] [[(1, 100), (0, 1000), (1, 1000), (0, 1000), (1, 8700)]]"
      "[(1, 100), (0, 1000), (1, 1000), (0, 1000), (1, 8700)]" "[]" "1.1"]
    calibrate_clamp_closed_range [of "fresh [] [[(1, 100), (0, 1000), (1, 1000), (0, 1000), (1, 9750)]]"
      "[(1, 100), (0, 1000), (1, 1000), (0, 1000), (1, 9750)]" "[]" "1.25"]
  by (simp add: fresh_def EXP_RTC_PERIOD_def)

text \<open>
  Claim C4 as stated fails at the bounds: a capture whose difference is 5250 gives the
  factor 0.75 and one whose difference is 8750 gives 1.25, and both are kept, not
  replaced by 1.
\<close>

theorem calibrate_boundary_counterexample:
  "clk_cal_factor (snd (calibrate
      (fresh [] [[(1, 100), (0, 1000), (1, 1000), (0, 1000), (1, 6250)]]))) = 0.75
   \<and> clk_cal_factor (snd (calibrate
      (fresh [] [[(1, 100), (0, 1000), (1, 1000), (0, 1000), (1, 6250)]]))) \<noteq> 1
   \<and> clk_cal_factor (snd (calibrate
      (fresh [] [[(1, 100), (0, 1000), (1, 1000), (0, 1000), (1, 9750)]]))) = 1.25
   \<and> clk_cal_factor (snd (calibrate
      (fresh [] [[(1, 100), (0, 1000), (1, 1000), (0, 1000), (1, 9750)]]))) \<noteq> 1"
  by (simp add: calibrate_eq fresh_def EXP_RTC_PERIOD_def)

subsection \<open>Voltage limit\<close>




subsection \<open>Sleep scheduling\<close>
















end
